theory Spec2Isabelle
  imports Main "HOL-Library.Word"
begin

section \<open>The command protocol (CommandProtocol.h)\<close>

text \<open>
  The Arduino types \<open>byte\<close> and \<open>uint8_t\<close> are unsigned 8-bit integers; \<open>char\<close> is
  8 bits wide as well and is kept here as its bit pattern.
\<close>

type_synonym byte = "8 word"

subsection \<open>Command, notification and response codes\<close>

definition CMD_NONE :: byte where "CMD_NONE = 0x00"
definition CMD_QUERY_ID :: byte where "CMD_QUERY_ID = 0x01"
definition CMD_QUERY_RESPONSE :: byte where "CMD_QUERY_RESPONSE = 0x02"
definition CMD_RESET_DEVICE :: byte where "CMD_RESET_DEVICE = 0x03"
definition CMD_MASTER_ADDR :: byte where "CMD_MASTER_ADDR = 0x04"
definition CMD_EXECUTE :: byte where "CMD_EXECUTE = 0x05"
definition CMD_ECHO :: byte where "CMD_ECHO = 0x06"

definition NOTIFY_CMD_INVALID :: byte where "NOTIFY_CMD_INVALID = 0xFE"

definition CMD_RESPONSE_OK :: byte where "CMD_RESPONSE_OK = 0x00"
definition CMD_RESPONSE_DEFERRED :: byte where "CMD_RESPONSE_DEFERRED = 0x01"
definition CMD_RESPONSE_NOTREADY :: byte where "CMD_RESPONSE_NOTREADY = 0x02"
definition CMD_RESPONSE_BUSY :: byte where "CMD_RESPONSE_BUSY = 0x03"
definition CMD_RESPONSE_ERROR :: byte where "CMD_RESPONSE_ERROR = 0x04"
definition CMD_RESPONSE_UNKNOWN :: byte where "CMD_RESPONSE_UNKNOWN = 0x05"

subsection \<open>The message structs\<close>

text \<open>
  Each struct is a record with the fields in declaration order; a derived struct is a
  record extension, so the base fields come first, as in the object layout. The
  character arrays \<open>CommandLine[27]\<close> and \<open>EchoData[27]\<close> are byte lists; the
  constructors below always build them with 27 elements.
\<close>

record CommandMessage =
  Length :: byte
  CommandCode :: byte

record CommandExecute = CommandMessage +
  RequestorAddress :: byte
  CommandLine :: "byte list"

record CommandEcho = CommandMessage +
  EchoData :: "byte list"

record CommandQueryResponseReady = CommandMessage +
  ResponseID :: byte
  OriginalCommand :: byte

record CommandResponse =
  Length :: byte
  ResponseCode :: byte
  ResponseID :: byte

record CommandResponseQueryID = CommandResponse +
  ID :: byte

text \<open>\<open>CommandResponseDeferred\<close> adds no field to \<open>CommandResponse\<close>.\<close>

type_synonym CommandResponseDeferred = CommandResponse

subsection \<open>sizeof\<close>

text \<open>
  Every member is a \<open>byte\<close>, or an array of \<open>char\<close>, of alignment 1, so a struct has no
  padding and its size is the sum of the sizes of its members.
\<close>

definition sizeof_CommandMessage :: nat where
  "sizeof_CommandMessage = 1 + 1"

definition sizeof_CommandLine :: nat where
  "sizeof_CommandLine = 27"

definition sizeof_EchoData :: nat where
  "sizeof_EchoData = 27"

definition sizeof_CommandExecute :: nat where
  "sizeof_CommandExecute = sizeof_CommandMessage + 1 + sizeof_CommandLine"

definition sizeof_CommandEcho :: nat where
  "sizeof_CommandEcho = sizeof_CommandMessage + sizeof_EchoData"

definition sizeof_CommandQueryResponseReady :: nat where
  "sizeof_CommandQueryResponseReady = sizeof_CommandMessage + 1 + 1"

definition sizeof_CommandResponse :: nat where
  "sizeof_CommandResponse = 1 + 1 + 1"

definition sizeof_CommandResponseQueryID :: nat where
  "sizeof_CommandResponseQueryID = sizeof_CommandResponse + 1"

definition sizeof_CommandResponseDeferred :: nat where
  "sizeof_CommandResponseDeferred = sizeof_CommandResponse"

subsection \<open>The C library calls of the constructors\<close>

text \<open>
  \<open>memset(dest, c, n)\<close> on an array of at least \<open>n\<close> bytes; the constructors call it
  with the size of the whole array.
\<close>

definition memset :: "byte list \<Rightarrow> byte \<Rightarrow> nat \<Rightarrow> byte list" where
  "memset dest c n = replicate n c @ drop n dest"

text \<open>
  \<open>strncpy(dest, src, n)\<close>: the characters of \<open>src\<close> up to its terminating NUL, at most
  \<open>n\<close> of them, then NUL bytes up to \<open>n\<close> bytes in all. The string \<open>src\<close> is given as
  the characters at the pointer; where the list ends without a NUL byte the string ends
  there.
\<close>

definition strncpy :: "byte list \<Rightarrow> byte list \<Rightarrow> nat \<Rightarrow> byte list" where
  "strncpy dest src n =
     (let s = takeWhile (\<lambda>c. c \<noteq> 0) (take n src)
      in s @ replicate (n - length s) 0 @ drop n dest)"

subsection \<open>Constructors\<close>

text \<open>
  A constructor of a derived struct runs the base constructor first (which stores the
  size of the base struct in \<open>Length\<close>) and then overwrites \<open>Length\<close> with its own
  \<open>sizeof(*this)\<close>. A member that no constructor initialises starts with an indeterminate
  content, which the constructor function takes as an argument.
\<close>

definition CommandMessage_ctor :: "byte \<Rightarrow> CommandMessage" where
  "CommandMessage_ctor commandCode =
     \<lparr>CommandMessage.Length = of_nat sizeof_CommandMessage, CommandCode = commandCode\<rparr>"

definition CommandExecute_ctor :: "byte \<Rightarrow> byte list \<Rightarrow> byte list \<Rightarrow> CommandExecute" where
  "CommandExecute_ctor requestorAddr commandLine indeterminate =
     (let this = CommandMessage.extend (CommandMessage_ctor CMD_EXECUTE)
                   (CommandExecute.fields requestorAddr (take sizeof_CommandLine indeterminate));
          this = this\<lparr>CommandMessage.Length := of_nat sizeof_CommandExecute\<rparr>;
          this = this\<lparr>CommandLine := memset (CommandLine this) 0 sizeof_CommandLine\<rparr>
      in this\<lparr>CommandLine := strncpy (CommandLine this) commandLine (sizeof_CommandLine - 1)\<rparr>)"

definition CommandEcho_ctor :: "byte list \<Rightarrow> byte list \<Rightarrow> CommandEcho" where
  "CommandEcho_ctor echoData indeterminate =
     (let this = CommandMessage.extend (CommandMessage_ctor CMD_ECHO)
                   (CommandEcho.fields (take sizeof_EchoData indeterminate));
          this = this\<lparr>CommandMessage.Length := of_nat sizeof_CommandEcho\<rparr>;
          this = this\<lparr>EchoData := memset (EchoData this) 0 sizeof_EchoData\<rparr>
      in this\<lparr>EchoData := strncpy (EchoData this) echoData (sizeof_EchoData - 1)\<rparr>)"

definition CommandQueryResponseReady_ctor :: "byte \<Rightarrow> byte \<Rightarrow> CommandQueryResponseReady" where
  "CommandQueryResponseReady_ctor responseID indeterminate =
     (let this = CommandMessage.extend (CommandMessage_ctor CMD_QUERY_RESPONSE)
                   (CommandQueryResponseReady.fields responseID indeterminate)
      in this\<lparr>CommandMessage.Length := of_nat sizeof_CommandQueryResponseReady\<rparr>)"

definition CommandResponse_ctor :: "byte \<Rightarrow> byte \<Rightarrow> CommandResponse" where
  "CommandResponse_ctor responseCode responseID =
     \<lparr>CommandResponse.Length = of_nat sizeof_CommandResponse,
      ResponseCode = responseCode, ResponseID = responseID\<rparr>"

definition CommandResponseQueryID_ctor :: "byte \<Rightarrow> CommandResponseQueryID" where
  "CommandResponseQueryID_ctor id' =
     (let this = CommandResponse.extend (CommandResponse_ctor CMD_RESPONSE_OK 0)
                   (CommandResponseQueryID.fields id')
      in this\<lparr>CommandResponse.Length := of_nat sizeof_CommandResponseQueryID\<rparr>)"

definition CommandResponseDeferred_ctor :: "byte \<Rightarrow> CommandResponseDeferred" where
  "CommandResponseDeferred_ctor responseID =
     (let this = CommandResponse_ctor CMD_RESPONSE_DEFERRED responseID
      in this\<lparr>CommandResponse.Length := of_nat sizeof_CommandResponseDeferred\<rparr>)"

subsection \<open>Object representations\<close>

text \<open>
  The structs are written to and read from the bus as raw bytes
  (\<open>(byte*)&response\<close>, \<open>(const CommandMessage*)CommandBuffer\<close>). \<open>bytes_of_X\<close> is the
  object representation of a value of struct \<open>X\<close>, and \<open>X_of_bytes\<close> reads a struct \<open>X\<close>
  through a pointer to a byte buffer; a buffer shorter than the struct gives \<open>None\<close>.
\<close>

definition bytes_of_CommandMessage :: "'a CommandMessage_scheme \<Rightarrow> byte list" where
  "bytes_of_CommandMessage m = [CommandMessage.Length m, CommandCode m]"

definition bytes_of_CommandExecute :: "CommandExecute \<Rightarrow> byte list" where
  "bytes_of_CommandExecute m =
     bytes_of_CommandMessage m @ [RequestorAddress m] @ CommandLine m"

definition bytes_of_CommandEcho :: "CommandEcho \<Rightarrow> byte list" where
  "bytes_of_CommandEcho m = bytes_of_CommandMessage m @ EchoData m"

definition bytes_of_CommandQueryResponseReady :: "CommandQueryResponseReady \<Rightarrow> byte list" where
  "bytes_of_CommandQueryResponseReady m =
     bytes_of_CommandMessage m @ [CommandQueryResponseReady.ResponseID m, OriginalCommand m]"

definition bytes_of_CommandResponse :: "'a CommandResponse_scheme \<Rightarrow> byte list" where
  "bytes_of_CommandResponse r =
     [CommandResponse.Length r, ResponseCode r, CommandResponse.ResponseID r]"

definition bytes_of_CommandResponseQueryID :: "CommandResponseQueryID \<Rightarrow> byte list" where
  "bytes_of_CommandResponseQueryID r = bytes_of_CommandResponse r @ [ID r]"

definition bytes_of_CommandResponseDeferred :: "CommandResponseDeferred \<Rightarrow> byte list" where
  "bytes_of_CommandResponseDeferred r = bytes_of_CommandResponse r"

definition CommandMessage_of_bytes :: "byte list \<Rightarrow> CommandMessage option" where
  "CommandMessage_of_bytes bs =
     (if length bs < sizeof_CommandMessage then None
      else Some \<lparr>CommandMessage.Length = bs ! 0, CommandCode = bs ! 1\<rparr>)"

definition CommandExecute_of_bytes :: "byte list \<Rightarrow> CommandExecute option" where
  "CommandExecute_of_bytes bs =
     (if length bs < sizeof_CommandExecute then None
      else Some \<lparr>CommandMessage.Length = bs ! 0, CommandCode = bs ! 1,
                 RequestorAddress = bs ! 2,
                 CommandLine = take sizeof_CommandLine (drop 3 bs)\<rparr>)"

definition CommandEcho_of_bytes :: "byte list \<Rightarrow> CommandEcho option" where
  "CommandEcho_of_bytes bs =
     (if length bs < sizeof_CommandEcho then None
      else Some \<lparr>CommandMessage.Length = bs ! 0, CommandCode = bs ! 1,
                 EchoData = take sizeof_EchoData (drop 2 bs)\<rparr>)"

definition CommandQueryResponseReady_of_bytes :: "byte list \<Rightarrow> CommandQueryResponseReady option" where
  "CommandQueryResponseReady_of_bytes bs =
     (if length bs < sizeof_CommandQueryResponseReady then None
      else Some \<lparr>CommandMessage.Length = bs ! 0, CommandCode = bs ! 1,
                 CommandQueryResponseReady.ResponseID = bs ! 2, OriginalCommand = bs ! 3\<rparr>)"

definition CommandResponse_of_bytes :: "byte list \<Rightarrow> CommandResponse option" where
  "CommandResponse_of_bytes bs =
     (if length bs < sizeof_CommandResponse then None
      else Some \<lparr>CommandResponse.Length = bs ! 0, ResponseCode = bs ! 1,
                 CommandResponse.ResponseID = bs ! 2\<rparr>)"

definition CommandResponseQueryID_of_bytes :: "byte list \<Rightarrow> CommandResponseQueryID option" where
  "CommandResponseQueryID_of_bytes bs =
     (if length bs < sizeof_CommandResponseQueryID then None
      else Some \<lparr>CommandResponse.Length = bs ! 0, ResponseCode = bs ! 1,
                 CommandResponse.ResponseID = bs ! 2, ID = bs ! 3\<rparr>)"

definition CommandResponseDeferred_of_bytes :: "byte list \<Rightarrow> CommandResponseDeferred option" where
  "CommandResponseDeferred_of_bytes bs =
     (if length bs < sizeof_CommandResponseDeferred then None
      else Some \<lparr>CommandResponse.Length = bs ! 0, ResponseCode = bs ! 1,
                 CommandResponse.ResponseID = bs ! 2\<rparr>)"

section \<open>The I2C wrappers (RTL_I2C.h)\<close>

text \<open>
  Undefined behaviour of the C++ code is a value of the model: a copy or a store that
  would write past the end of the destination array is \<open>BufferOverrun\<close>, a read past the
  end of the source object is \<open>SourceOverread\<close>.
\<close>

datatype fault = BufferOverrun | SourceOverread

text \<open>
  Modelled from the spec: the bus transport (the Arduino \<open>TwoWire\<close> class) is an external
  collaborator that moves raw bytes. It is kept as the queue of received bytes that have
  not been read yet and the sequence of bytes written so far. \<open>available\<close> tells whether
  a received byte is waiting, \<open>read\<close> takes the next one (\<open>-1\<close>, that is \<open>0xFF\<close> as a
  byte, when none is waiting), and \<open>write(p, n)\<close> sends the \<open>n\<close> bytes at \<open>p\<close>.
\<close>

record TwoWire =
  rxBuffer :: "byte list"
  txBuffer :: "byte list"

definition TwoWire_available :: "TwoWire \<Rightarrow> bool" where
  "TwoWire_available twi = (rxBuffer twi \<noteq> [])"

definition TwoWire_read :: "TwoWire \<Rightarrow> byte \<times> TwoWire" where
  "TwoWire_read twi =
     (case rxBuffer twi of
        [] \<Rightarrow> (0xFF, twi)
      | b # rest \<Rightarrow> (b, twi\<lparr>rxBuffer := rest\<rparr>))"

definition TwoWire_write :: "TwoWire \<Rightarrow> byte list \<Rightarrow> nat \<Rightarrow> TwoWire" where
  "TwoWire_write twi p n = twi\<lparr>txBuffer := txBuffer twi @ take n p\<rparr>"

text \<open>
  \<open>I2C_Read(twi, pDest, sizeDest)\<close>: the loop
  \<open>while (bytesRead < sizeDest && twi.available()) pDest[bytesRead++] = twi.read();\<close>
  with its \<open>uint16_t\<close> counter, which wraps around at \<open>2^16\<close>. \<open>pDest\<close> is the array the
  pointer points to; \<open>sizeDest\<close> is the \<open>size_t\<close> the caller passes, which need not be
  the size of that array. Every iteration takes one byte from the receive queue.
\<close>

function I2C_Read_loop ::
  "TwoWire \<Rightarrow> byte list \<Rightarrow> nat \<Rightarrow> 16 word \<Rightarrow> fault + (16 word \<times> byte list \<times> TwoWire)" where
  "I2C_Read_loop twi pDest sizeDest bytesRead =
     (if unat bytesRead < sizeDest \<and> TwoWire_available twi then
        (if unat bytesRead < length pDest then
           I2C_Read_loop (snd (TwoWire_read twi))
             (pDest[unat bytesRead := fst (TwoWire_read twi)]) sizeDest (bytesRead + 1)
         else Inl BufferOverrun)
      else Inr (bytesRead, pDest, twi))"
  by pat_completeness auto
termination
  by (relation "measure (\<lambda>(twi, pDest, sizeDest, bytesRead). length (rxBuffer twi))")
     (auto simp: TwoWire_available_def TwoWire_read_def split: list.splits)

declare I2C_Read_loop.simps [simp del]

definition I2C_Read ::
  "TwoWire \<Rightarrow> byte list \<Rightarrow> nat \<Rightarrow> fault + (16 word \<times> byte list \<times> TwoWire)" where
  "I2C_Read twi pDest sizeDest = I2C_Read_loop twi pDest sizeDest 0"

text \<open>
  The typed \<open>I2C_Read(twi, T& value)\<close> and \<open>I2C_Write(twi, const T& value)\<close>: a value of
  type \<open>T\<close> is given by its object representation, a list of \<open>sizeof(T)\<close> bytes. The
  result of \<open>I2C_Write\<close> is \<open>sizeof(value)\<close> converted to \<open>uint16_t\<close>.
\<close>

definition I2C_Read_T ::
  "TwoWire \<Rightarrow> byte list \<Rightarrow> fault + (16 word \<times> byte list \<times> TwoWire)" where
  "I2C_Read_T twi val = I2C_Read twi val (length val)"

definition I2C_Write :: "TwoWire \<Rightarrow> byte list \<Rightarrow> TwoWire \<times> 16 word" where
  "I2C_Write twi val = (TwoWire_write twi val (length val), of_nat (length val))"

section \<open>The command listener (CommandListener.h, CommandListener.cpp)\<close>

text \<open>
  \<open>memcpy(dest, src, n)\<close> into an array \<open>dest\<close> from an object \<open>src\<close>: the first \<open>n\<close> bytes
  of \<open>dest\<close> are replaced. More than the array holds, or more than the source object
  holds, is undefined behaviour.
\<close>

definition memcpy :: "byte list \<Rightarrow> byte list \<Rightarrow> nat \<Rightarrow> fault + byte list" where
  "memcpy dest src n =
     (if length dest < n then Inl BufferOverrun
      else if length src < n then Inl SourceOverread
      else Inr (take n src @ drop n dest))"

text \<open>
  The listener object. \<open>eventSource\<close> stands for the \<open>EventSource\<close> base class
  sub-object, whose class belongs to another library; \<open>myDeviceID\<close> is the member
  \<open>_myDeviceID\<close>. A class derived from the listener is a record extension.
\<close>

record 'e CommandListener =
  eventSource :: 'e
  CommandBuffer :: "byte list"
  ResponseBuffer :: "byte list"
  CommandPending :: bool
  ResponsePending :: bool
  myDeviceID :: byte

definition sizeof_CommandBuffer :: nat where
  "sizeof_CommandBuffer = 32"

definition sizeof_ResponseBuffer :: nat where
  "sizeof_ResponseBuffer = 32"

text \<open>The two arrays are declared as \<open>byte CommandBuffer[32]\<close> and \<open>byte ResponseBuffer[32]\<close>.\<close>

definition wf_listener :: "('e, 'a) CommandListener_scheme \<Rightarrow> bool" where
  "wf_listener this =
     (length (CommandBuffer this) = sizeof_CommandBuffer \<and>
      length (ResponseBuffer this) = sizeof_ResponseBuffer)"

text \<open>
  The constructor stores the device ID and nothing else: the buffers and the two flags
  keep the indeterminate content of the storage the object is built in.
\<close>

definition CommandListener_ctor ::
  "byte \<Rightarrow> ('e, 'a) CommandListener_scheme \<Rightarrow> ('e, 'a) CommandListener_scheme" where
  "CommandListener_ctor deviceID indeterminate = indeterminate\<lparr>myDeviceID := deviceID\<rparr>"

text \<open>\<open>Begin\<close>; the virtual \<open>OnBegin\<close> is a parameter, and the base class's does nothing.\<close>

definition OnBegin :: "('e, 'a) CommandListener_scheme \<Rightarrow> ('e, 'a) CommandListener_scheme" where
  "OnBegin this = this"

definition Begin ::
  "(('e, 'a) CommandListener_scheme \<Rightarrow> ('e, 'a) CommandListener_scheme) \<Rightarrow>
   ('e, 'a) CommandListener_scheme \<Rightarrow> ('e, 'a) CommandListener_scheme" where
  "Begin onBegin this = onBegin (this\<lparr>CommandPending := False, ResponsePending := False\<rparr>)"

text \<open>
  \<open>PostResponse(pResponse)\<close>: a null pointer is \<open>None\<close>; otherwise the argument is the
  object the pointer points to, as its bytes, whose first byte is the \<open>Length\<close> member.
\<close>

definition PostResponse ::
  "byte list option \<Rightarrow> ('e, 'a) CommandListener_scheme \<Rightarrow> fault + ('e, 'a) CommandListener_scheme" where
  "PostResponse pResponse this =
     (case pResponse of
        None \<Rightarrow> Inr this
      | Some r \<Rightarrow>
          (case r of
             [] \<Rightarrow> Inl SourceOverread
           | len # _ \<Rightarrow>
               (case memcpy (ResponseBuffer this) r (unat len) of
                  Inl e \<Rightarrow> Inl e
                | Inr buf \<Rightarrow> Inr (this\<lparr>ResponseBuffer := buf, ResponsePending := True\<rparr>))))"

text \<open>
  \<open>DefaultCommandHandler(pCommand)\<close>: a \<open>switch\<close> on \<open>pCommand->CommandCode\<close> with the
  single case \<open>CMD_QUERY_ID\<close>.
\<close>

definition DefaultCommandHandler ::
  "byte list \<Rightarrow> ('e, 'a) CommandListener_scheme \<Rightarrow> fault + ('e, 'a) CommandListener_scheme" where
  "DefaultCommandHandler pCommand this =
     (case CommandMessage_of_bytes pCommand of
        None \<Rightarrow> Inl SourceOverread
      | Some cmd \<Rightarrow>
          if CommandCode cmd = CMD_QUERY_ID then
            (let response = CommandResponseQueryID_ctor (myDeviceID this)
             in PostResponse (Some (bytes_of_CommandResponseQueryID response)) this)
          else Inr this)"

text \<open>The base class's virtual \<open>OnCommand\<close> and \<open>IsResponseExpected\<close>.\<close>

definition OnCommand ::
  "byte list \<Rightarrow> ('e, 'a) CommandListener_scheme \<Rightarrow> fault + ('e, 'a) CommandListener_scheme" where
  "OnCommand pCommand this = DefaultCommandHandler pCommand this"


text \<open>
  \<open>Poll\<close>: the virtual \<open>OnCommand\<close> is the parameter \<open>onCommand\<close>, called with the pointer
  to \<open>CommandBuffer\<close>; \<open>EventSource::Poll\<close> is the parameter \<open>EventSource_Poll\<close>, which
  works on the base class sub-object.
\<close>

definition Poll ::
  "(byte list \<Rightarrow> ('e, 'a) CommandListener_scheme \<Rightarrow> fault + ('e, 'a) CommandListener_scheme) \<Rightarrow>
   ('e \<Rightarrow> 'e) \<Rightarrow> ('e, 'a) CommandListener_scheme \<Rightarrow> fault + ('e, 'a) CommandListener_scheme" where
  "Poll onCommand EventSource_Poll this =
     (case (if CommandPending this then
              (case onCommand (CommandBuffer this) this of
                 Inl e \<Rightarrow> Inl e
               | Inr this' \<Rightarrow> Inr (this'\<lparr>CommandPending := False\<rparr>))
            else Inr this) of
        Inl e \<Rightarrow> Inl e
      | Inr this' \<Rightarrow> Inr (this'\<lparr>eventSource := EventSource_Poll (eventSource this')\<rparr>))"

text \<open>\<open>OnEvent\<close>: the \<open>switch\<close> on the event ID has only the empty \<open>default\<close> case.\<close>

definition OnEvent :: "nat \<Rightarrow> ('e, 'a) CommandListener_scheme \<Rightarrow> ('e, 'a) CommandListener_scheme" where
  "OnEvent eventID this = this"

text \<open>
  \<open>SendResponse(twi)\<close> of the base class: a local \<open>CommandResponse(CMD_RESPONSE_UNKNOWN)\<close>
  is written to the bus.
\<close>

definition SendResponse ::
  "TwoWire \<Rightarrow> ('e, 'a) CommandListener_scheme \<Rightarrow> TwoWire \<times> ('e, 'a) CommandListener_scheme" where
  "SendResponse twi this =
     (let response = CommandResponse_ctor CMD_RESPONSE_UNKNOWN 0
      in (TwoWire_write twi (bytes_of_CommandResponse response) sizeof_CommandResponse, this))"

text \<open>
  \<open>GetResponse\<close> returns a pointer, either to the function's static
  \<open>responseNotReady\<close> or to the listener's \<open>ResponseBuffer\<close>; \<open>response_at\<close> gives the
  bytes at such a pointer.
\<close>

datatype response_ptr = responseNotReady_ptr | ResponseBuffer_ptr

definition responseNotReady :: CommandResponse where
  "responseNotReady = CommandResponse_ctor CMD_RESPONSE_NOTREADY 0"

definition GetResponse ::
  "('e, 'a) CommandListener_scheme \<Rightarrow> response_ptr \<times> ('e, 'a) CommandListener_scheme" where
  "GetResponse this =
     (let pResponse = responseNotReady_ptr
      in if ResponsePending this
         then (ResponseBuffer_ptr, this\<lparr>ResponsePending := False\<rparr>)
         else (pResponse, this))"

definition response_at :: "('e, 'a) CommandListener_scheme \<Rightarrow> response_ptr \<Rightarrow> byte list" where
  "response_at this p =
     (case p of
        responseNotReady_ptr \<Rightarrow> bytes_of_CommandResponse responseNotReady
      | ResponseBuffer_ptr \<Rightarrow> ResponseBuffer this)"

text \<open>
  The two overloads of \<open>OnCommandReceived\<close>, \<open>PostDeferredResponse\<close>,
  \<open>HandleQueryResponseReady\<close> and the list \<open>_deferredResponseList\<close> stand in the
  source only as commented-out text, declarations included: the class that is compiled
  has no member function that receives a command and no list of deferred responses, and
  nothing in it calls \<open>IsResponseExpected\<close>. They are not part of the model. The members
  \<open>CommandBuffer\<close> and \<open>CommandPending\<close> are public; the code that receives a command
  from the bus writes them from outside the class.
\<close>

subsection \<open>Sequences of calls on a listener\<close>

text \<open>
  The member functions of the base class that code outside it can call on a listener
  object, as a datatype of calls: the public \<open>Begin\<close>, \<open>Poll\<close>, \<open>OnEvent\<close>,
  \<open>GetResponse\<close> and \<open>SendResponse\<close>, and the protected \<open>OnCommand\<close> and
  \<open>PostResponse\<close>, which a derived class calls. \<open>call_step\<close> runs one call with the base
  class's virtual functions and keeps the listener; \<open>call_seq\<close> runs a sequence and
  stops at the first fault.
\<close>

datatype call =
  Call_Begin
  | Call_Poll
  | Call_OnEvent nat
  | Call_GetResponse
  | Call_SendResponse TwoWire
  | Call_OnCommand "byte list"
  | Call_PostResponse "byte list option"

fun call_step ::
  "('e \<Rightarrow> 'e) \<Rightarrow> call \<Rightarrow> ('e, 'a) CommandListener_scheme \<Rightarrow>
   fault + ('e, 'a) CommandListener_scheme" where
  "call_step EventSource_Poll Call_Begin this = Inr (Begin OnBegin this)"
| "call_step EventSource_Poll Call_Poll this = Poll OnCommand EventSource_Poll this"
| "call_step EventSource_Poll (Call_OnEvent eventID) this = Inr (OnEvent eventID this)"
| "call_step EventSource_Poll Call_GetResponse this = Inr (snd (GetResponse this))"
| "call_step EventSource_Poll (Call_SendResponse twi) this = Inr (snd (SendResponse twi this))"
| "call_step EventSource_Poll (Call_OnCommand pCommand) this = OnCommand pCommand this"
| "call_step EventSource_Poll (Call_PostResponse pResp) this = PostResponse pResp this"

fun call_seq ::
  "('e \<Rightarrow> 'e) \<Rightarrow> call list \<Rightarrow> ('e, 'a) CommandListener_scheme \<Rightarrow>
   fault + ('e, 'a) CommandListener_scheme" where
  "call_seq EventSource_Poll [] this = Inr this"
| "call_seq EventSource_Poll (c # cs) this =
     (case call_step EventSource_Poll c this of
        Inl e \<Rightarrow> Inl e
      | Inr this' \<Rightarrow> call_seq EventSource_Poll cs this')"

text \<open>
  Whether a call reaches a call of \<open>PostResponse\<close>: \<open>PostResponse\<close> itself does;
  \<open>OnCommand\<close> does through \<open>DefaultCommandHandler\<close> when the command code is
  \<open>CMD_QUERY_ID\<close>; \<open>Poll\<close> does through \<open>OnCommand\<close> when a command is pending; the
  other member functions never call it.
\<close>

definition OnCommand_posts :: "byte list \<Rightarrow> bool" where
  "OnCommand_posts pCommand =
     (case CommandMessage_of_bytes pCommand of
        None \<Rightarrow> False
      | Some cmd \<Rightarrow> CommandCode cmd = CMD_QUERY_ID)"

fun PostResponse_occurs :: "call \<Rightarrow> ('e, 'a) CommandListener_scheme \<Rightarrow> bool" where
  "PostResponse_occurs (Call_PostResponse pResp) this = True"
| "PostResponse_occurs (Call_OnCommand pCommand) this = OnCommand_posts pCommand"
| "PostResponse_occurs Call_Poll this =
     (CommandPending this \<and> OnCommand_posts (CommandBuffer this))"
| "PostResponse_occurs c this = False"

text \<open>
  A sequence of calls that runs to its end without a fault and in which no call reaches
  \<open>PostResponse\<close>.
\<close>

fun no_PostResponse ::
  "('e \<Rightarrow> 'e) \<Rightarrow> call list \<Rightarrow> ('e, 'a) CommandListener_scheme \<Rightarrow> bool" where
  "no_PostResponse EventSource_Poll [] this = True"
| "no_PostResponse EventSource_Poll (c # cs) this =
     (\<not> PostResponse_occurs c this \<and>
      (case call_step EventSource_Poll c this of
         Inl e \<Rightarrow> False
       | Inr this' \<Rightarrow> no_PostResponse EventSource_Poll cs this'))"

subsection \<open>A derived class that records its dispatches\<close>

text \<open>
  A class derived from the listener whose \<open>OnCommand\<close> override appends the command it
  is given to a list and then runs the base class's \<open>OnCommand\<close>; it makes the number
  of dispatches of a \<open>Poll\<close> observable.
\<close>

record 'e RecordingListener = "'e CommandListener" +
  Dispatched :: "byte list list"

definition Recording_OnCommand ::
  "byte list \<Rightarrow> ('e, 'a) RecordingListener_scheme \<Rightarrow> fault + ('e, 'a) RecordingListener_scheme" where
  "Recording_OnCommand pCommand this =
     OnCommand pCommand (this\<lparr>Dispatched := Dispatched this @ [pCommand]\<rparr>)"

subsection \<open>Example objects\<close>

text \<open>
  A listener with device ID 0 after \<open>Begin\<close>, with zeroed buffers, and the same for the
  recording class; the concrete instances of the theorems below start from them.
\<close>

abbreviation listener0 :: "unit CommandListener" where
  "listener0 \<equiv>
     \<lparr>eventSource = (), CommandBuffer = replicate 32 0, ResponseBuffer = replicate 32 0,
      CommandPending = False, ResponsePending = False, myDeviceID = 0\<rparr>"

abbreviation recorder0 :: "unit RecordingListener" where
  "recorder0 \<equiv>
     \<lparr>eventSource = (), CommandBuffer = replicate 32 0, ResponseBuffer = replicate 32 0,
      CommandPending = False, ResponsePending = False, myDeviceID = 0, Dispatched = []\<rparr>"

section \<open>Properties of the message structs\<close>

lemmas protocol_codes =
  CMD_NONE_def CMD_QUERY_ID_def CMD_QUERY_RESPONSE_def CMD_RESET_DEVICE_def
  CMD_MASTER_ADDR_def CMD_EXECUTE_def CMD_ECHO_def NOTIFY_CMD_INVALID_def
  CMD_RESPONSE_OK_def CMD_RESPONSE_DEFERRED_def CMD_RESPONSE_NOTREADY_def
  CMD_RESPONSE_BUSY_def CMD_RESPONSE_ERROR_def CMD_RESPONSE_UNKNOWN_def

lemmas sizeof_defs =
  sizeof_CommandMessage_def sizeof_CommandLine_def sizeof_EchoData_def
  sizeof_CommandExecute_def sizeof_CommandEcho_def sizeof_CommandQueryResponseReady_def
  sizeof_CommandResponse_def sizeof_CommandResponseQueryID_def
  sizeof_CommandResponseDeferred_def

lemma strncpy_memset_length:
  "length (strncpy (memset (take 27 dest) 0 27) src 26) = 27"
proof -
  have "length (takeWhile (\<lambda>c. c \<noteq> 0) (take 26 src)) \<le> 26"
    by (rule order_trans [OF length_takeWhile_le]) simp
  then show ?thesis
    by (simp add: strncpy_def memset_def Let_def)
qed

lemma CommandExecute_ctor_eq:
  "CommandExecute_ctor a s g =
     \<lparr>CommandMessage.Length = 30, CommandCode = CMD_EXECUTE, RequestorAddress = a,
      CommandLine = strncpy (memset (take 27 g) 0 27) s 26\<rparr>"
  by (simp add: CommandExecute_ctor_def CommandMessage_ctor_def CommandMessage.extend_def
      CommandExecute.fields_def sizeof_defs Let_def)

lemma CommandEcho_ctor_eq:
  "CommandEcho_ctor s g =
     \<lparr>CommandMessage.Length = 29, CommandCode = CMD_ECHO,
      EchoData = strncpy (memset (take 27 g) 0 27) s 26\<rparr>"
  by (simp add: CommandEcho_ctor_def CommandMessage_ctor_def CommandMessage.extend_def
      CommandEcho.fields_def sizeof_defs Let_def)

lemma CommandExecute_roundtrip:
  "CommandExecute_of_bytes (bytes_of_CommandExecute (CommandExecute_ctor a s g)) =
     Some (CommandExecute_ctor a s g)"
  by (simp add: CommandExecute_ctor_eq CommandExecute_of_bytes_def bytes_of_CommandExecute_def
      bytes_of_CommandMessage_def sizeof_defs strncpy_memset_length)

lemma CommandEcho_roundtrip:
  "CommandEcho_of_bytes (bytes_of_CommandEcho (CommandEcho_ctor s g)) =
     Some (CommandEcho_ctor s g)"
  by (simp add: CommandEcho_ctor_eq CommandEcho_of_bytes_def bytes_of_CommandEcho_def
      bytes_of_CommandMessage_def sizeof_defs strncpy_memset_length)

lemma CommandExecute_size:
  "unat (CommandMessage.Length (CommandExecute_ctor a s g)) = sizeof_CommandExecute \<and>
   length (bytes_of_CommandExecute (CommandExecute_ctor a s g)) = sizeof_CommandExecute"
  by (simp add: CommandExecute_ctor_eq bytes_of_CommandExecute_def
      bytes_of_CommandMessage_def sizeof_defs strncpy_memset_length)

lemma CommandEcho_size:
  "unat (CommandMessage.Length (CommandEcho_ctor s g)) = sizeof_CommandEcho \<and>
   length (bytes_of_CommandEcho (CommandEcho_ctor s g)) = sizeof_CommandEcho"
  by (simp add: CommandEcho_ctor_eq bytes_of_CommandEcho_def
      bytes_of_CommandMessage_def sizeof_defs strncpy_memset_length)

lemma CommandMessage_frame:
  "unat (CommandMessage.Length (CommandMessage_ctor c)) = sizeof_CommandMessage \<and>
   length (bytes_of_CommandMessage (CommandMessage_ctor c)) = sizeof_CommandMessage \<and>
   CommandMessage_of_bytes (bytes_of_CommandMessage (CommandMessage_ctor c)) =
     Some (CommandMessage_ctor c)"
  by (simp add: CommandMessage_ctor_def bytes_of_CommandMessage_def CommandMessage_of_bytes_def
      sizeof_defs)

lemma CommandQueryResponseReady_frame:
  "unat (CommandMessage.Length (CommandQueryResponseReady_ctor r u)) =
     sizeof_CommandQueryResponseReady \<and>
   length (bytes_of_CommandQueryResponseReady (CommandQueryResponseReady_ctor r u)) =
     sizeof_CommandQueryResponseReady \<and>
   CommandQueryResponseReady_of_bytes
       (bytes_of_CommandQueryResponseReady (CommandQueryResponseReady_ctor r u)) =
     Some (CommandQueryResponseReady_ctor r u)"
  by (simp add: CommandQueryResponseReady_ctor_def CommandMessage_ctor_def
      CommandMessage.extend_def CommandQueryResponseReady.fields_def
      bytes_of_CommandQueryResponseReady_def bytes_of_CommandMessage_def
      CommandQueryResponseReady_of_bytes_def sizeof_defs Let_def)

lemma CommandResponse_frame:
  "unat (CommandResponse.Length (CommandResponse_ctor c r)) = sizeof_CommandResponse \<and>
   length (bytes_of_CommandResponse (CommandResponse_ctor c r)) = sizeof_CommandResponse \<and>
   CommandResponse_of_bytes (bytes_of_CommandResponse (CommandResponse_ctor c r)) =
     Some (CommandResponse_ctor c r)"
  by (simp add: CommandResponse_ctor_def bytes_of_CommandResponse_def
      CommandResponse_of_bytes_def sizeof_defs)

lemma CommandResponseQueryID_frame:
  "unat (CommandResponse.Length (CommandResponseQueryID_ctor i)) =
     sizeof_CommandResponseQueryID \<and>
   length (bytes_of_CommandResponseQueryID (CommandResponseQueryID_ctor i)) =
     sizeof_CommandResponseQueryID \<and>
   CommandResponseQueryID_of_bytes
       (bytes_of_CommandResponseQueryID (CommandResponseQueryID_ctor i)) =
     Some (CommandResponseQueryID_ctor i)"
  by (simp add: CommandResponseQueryID_ctor_def CommandResponse_ctor_def
      CommandResponse.extend_def CommandResponseQueryID.fields_def
      bytes_of_CommandResponseQueryID_def bytes_of_CommandResponse_def
      CommandResponseQueryID_of_bytes_def sizeof_defs Let_def)

lemma CommandResponseDeferred_frame:
  "unat (CommandResponse.Length (CommandResponseDeferred_ctor r)) =
     sizeof_CommandResponseDeferred \<and>
   length (bytes_of_CommandResponseDeferred (CommandResponseDeferred_ctor r)) =
     sizeof_CommandResponseDeferred \<and>
   CommandResponseDeferred_of_bytes
       (bytes_of_CommandResponseDeferred (CommandResponseDeferred_ctor r)) =
     Some (CommandResponseDeferred_ctor r)"
  by (simp add: CommandResponseDeferred_ctor_def CommandResponse_ctor_def
      bytes_of_CommandResponseDeferred_def bytes_of_CommandResponse_def
      CommandResponseDeferred_of_bytes_def sizeof_defs Let_def)

text \<open>
  C3: for each of the seven command and response structs and for all constructor
  arguments, the constructor stores the size of the struct in \<open>Length\<close>, the object
  representation of the constructed frame has that many bytes, and reading the struct
  back from these bytes gives the constructed frame, field by field.
\<close>

theorem constructors_stamp_length_and_roundtrip:
  "(unat (CommandMessage.Length (CommandMessage_ctor c1)) = sizeof_CommandMessage \<and>
    length (bytes_of_CommandMessage (CommandMessage_ctor c1)) = sizeof_CommandMessage \<and>
    CommandMessage_of_bytes (bytes_of_CommandMessage (CommandMessage_ctor c1)) =
      Some (CommandMessage_ctor c1)) \<and>
   (unat (CommandMessage.Length (CommandExecute_ctor a2 s2 g2)) = sizeof_CommandExecute \<and>
    length (bytes_of_CommandExecute (CommandExecute_ctor a2 s2 g2)) = sizeof_CommandExecute \<and>
    CommandExecute_of_bytes (bytes_of_CommandExecute (CommandExecute_ctor a2 s2 g2)) =
      Some (CommandExecute_ctor a2 s2 g2)) \<and>
   (unat (CommandMessage.Length (CommandEcho_ctor s3 g3)) = sizeof_CommandEcho \<and>
    length (bytes_of_CommandEcho (CommandEcho_ctor s3 g3)) = sizeof_CommandEcho \<and>
    CommandEcho_of_bytes (bytes_of_CommandEcho (CommandEcho_ctor s3 g3)) =
      Some (CommandEcho_ctor s3 g3)) \<and>
   (unat (CommandMessage.Length (CommandQueryResponseReady_ctor r4 u4)) =
      sizeof_CommandQueryResponseReady \<and>
    length (bytes_of_CommandQueryResponseReady (CommandQueryResponseReady_ctor r4 u4)) =
      sizeof_CommandQueryResponseReady \<and>
    CommandQueryResponseReady_of_bytes
        (bytes_of_CommandQueryResponseReady (CommandQueryResponseReady_ctor r4 u4)) =
      Some (CommandQueryResponseReady_ctor r4 u4)) \<and>
   (unat (CommandResponse.Length (CommandResponse_ctor c5 r5)) = sizeof_CommandResponse \<and>
    length (bytes_of_CommandResponse (CommandResponse_ctor c5 r5)) = sizeof_CommandResponse \<and>
    CommandResponse_of_bytes (bytes_of_CommandResponse (CommandResponse_ctor c5 r5)) =
      Some (CommandResponse_ctor c5 r5)) \<and>
   (unat (CommandResponse.Length (CommandResponseQueryID_ctor i6)) =
      sizeof_CommandResponseQueryID \<and>
    length (bytes_of_CommandResponseQueryID (CommandResponseQueryID_ctor i6)) =
      sizeof_CommandResponseQueryID \<and>
    CommandResponseQueryID_of_bytes
        (bytes_of_CommandResponseQueryID (CommandResponseQueryID_ctor i6)) =
      Some (CommandResponseQueryID_ctor i6)) \<and>
   (unat (CommandResponse.Length (CommandResponseDeferred_ctor r7)) =
      sizeof_CommandResponseDeferred \<and>
    length (bytes_of_CommandResponseDeferred (CommandResponseDeferred_ctor r7)) =
      sizeof_CommandResponseDeferred \<and>
    CommandResponseDeferred_of_bytes
        (bytes_of_CommandResponseDeferred (CommandResponseDeferred_ctor r7)) =
      Some (CommandResponseDeferred_ctor r7))"
proof (intro conjI)
  show "unat (CommandMessage.Length (CommandExecute_ctor a2 s2 g2)) = sizeof_CommandExecute"
    and "length (bytes_of_CommandExecute (CommandExecute_ctor a2 s2 g2)) = sizeof_CommandExecute"
    using CommandExecute_size [of a2 s2 g2] by simp_all
  show "unat (CommandMessage.Length (CommandEcho_ctor s3 g3)) = sizeof_CommandEcho"
    and "length (bytes_of_CommandEcho (CommandEcho_ctor s3 g3)) = sizeof_CommandEcho"
    using CommandEcho_size [of s3 g3] by simp_all
qed (simp_all only: CommandMessage_frame CommandExecute_roundtrip CommandEcho_roundtrip
      CommandQueryResponseReady_frame CommandResponse_frame CommandResponseQueryID_frame
      CommandResponseDeferred_frame)

section \<open>Properties of the listener\<close>

lemma bytes_of_QueryID:
  "bytes_of_CommandResponseQueryID (CommandResponseQueryID_ctor i) = [4, CMD_RESPONSE_OK, 0, i]"
  by (simp add: CommandResponseQueryID_ctor_def CommandResponse_ctor_def
      CommandResponse.extend_def CommandResponseQueryID.fields_def
      bytes_of_CommandResponseQueryID_def bytes_of_CommandResponse_def sizeof_defs Let_def)

lemma bytes_of_CommandResponse_ctor:
  "bytes_of_CommandResponse (CommandResponse_ctor c r) = [3, c, r]"
  by (simp add: CommandResponse_ctor_def bytes_of_CommandResponse_def sizeof_defs)

lemma PostResponse_QueryID:
  "4 \<le> length (ResponseBuffer this) \<Longrightarrow>
   PostResponse (Some (bytes_of_CommandResponseQueryID (CommandResponseQueryID_ctor i))) this =
     Inr (this\<lparr>ResponseBuffer := [4, CMD_RESPONSE_OK, 0, i] @ drop 4 (ResponseBuffer this),
              ResponsePending := True\<rparr>)"
  by (simp add: PostResponse_def bytes_of_QueryID memcpy_def)

lemma PostResponse_CommandResponse:
  "3 \<le> length (ResponseBuffer this) \<Longrightarrow>
   PostResponse (Some (bytes_of_CommandResponse (CommandResponse_ctor c r))) this =
     Inr (this\<lparr>ResponseBuffer := [3, c, r] @ drop 3 (ResponseBuffer this),
              ResponsePending := True\<rparr>)"
  by (simp add: PostResponse_def bytes_of_CommandResponse_ctor memcpy_def)

lemma PostResponse_cases:
  assumes "unat len \<le> length (len # rest)"
  shows "PostResponse (Some (len # rest)) this =
           (if unat len \<le> length (ResponseBuffer this)
            then Inr (this\<lparr>ResponseBuffer :=
                             take (unat len) (len # rest) @ drop (unat len) (ResponseBuffer this),
                           ResponsePending := True\<rparr>)
            else Inl BufferOverrun)"
  using assms by (simp add: PostResponse_def memcpy_def)



lemma call_step_quiet:
  assumes "\<not> PostResponse_occurs c this"
    and "call_step es c this = Inr this'"
    and "\<not> ResponsePending this"
  shows "\<not> ResponsePending this'"
  using assms
  by (cases c)
     (auto simp: Begin_def OnBegin_def Poll_def OnCommand_def OnCommand_posts_def DefaultCommandHandler_def
        OnEvent_def GetResponse_def SendResponse_def Let_def
        split: if_splits sum.splits option.splits)

lemma call_step_keeps_ResponseBuffer:
  assumes "\<not> PostResponse_occurs c this"
    and "call_step es c this = Inr this'"
  shows "ResponseBuffer this' = ResponseBuffer this"
  using assms
  by (cases c)
     (auto simp: Begin_def OnBegin_def Poll_def OnCommand_def OnCommand_posts_def
        DefaultCommandHandler_def OnEvent_def GetResponse_def SendResponse_def Let_def
        split: if_splits sum.splits option.splits)

lemma no_PostResponse_keeps_idle:
  assumes "no_PostResponse es cs this" and "\<not> ResponsePending this"
  shows "\<exists>this'. call_seq es cs this = Inr this' \<and> \<not> ResponsePending this'"
  using assms
proof (induction cs arbitrary: this)
  case Nil
  then show ?case by simp
next
  case (Cons c cs)
  from Cons.prems(1) obtain mid where
    step: "call_step es c this = Inr mid" and quiet: "\<not> PostResponse_occurs c this"
    and rest: "no_PostResponse es cs mid"
    by (auto split: sum.splits)
  have "\<not> ResponsePending mid"
    using call_step_quiet [OF quiet step Cons.prems(2)] .
  from Cons.IH [OF rest this] show ?case
    by (simp add: step)
qed

lemma PostResponse_then_GetResponse:
  assumes "PostResponse (Some (len # rest)) this = Inr this'"
  shows "GetResponse this' = (ResponseBuffer_ptr, this'\<lparr>ResponsePending := False\<rparr>) \<and>
         take (unat len) (ResponseBuffer this') = take (unat len) (len # rest)"
  using assms
  by (auto simp: PostResponse_def memcpy_def GetResponse_def split: if_splits)

lemma GetResponse_clears: "\<not> ResponsePending (snd (GetResponse this))"
  by (simp add: GetResponse_def)

lemma responseNotReady_bytes:
  "response_at this responseNotReady_ptr = [3, CMD_RESPONSE_NOTREADY, 0]"
  by (simp add: response_at_def responseNotReady_def bytes_of_CommandResponse_ctor)

lemma unat_Suc_u16:
  fixes k :: "16 word"
  assumes "unat k < n" and "n < 65536"
  shows "unat (k + 1) = Suc (unat k)"
proof -
  have "unat k + 1 < 2 ^ LENGTH(16)" using assms by simp
  then show ?thesis
    by (simp add: unat_word_ariths)
qed

lemma I2C_Read_loop_eq:
  assumes "sizeDest \<le> length pDest" and "sizeDest < 65536" and "unat k \<le> sizeDest"
  shows "I2C_Read_loop twi pDest sizeDest k =
           Inr (of_nat (min sizeDest (unat k + length (rxBuffer twi))),
                take (unat k) pDest @
                  take (min sizeDest (unat k + length (rxBuffer twi)) - unat k) (rxBuffer twi) @
                  drop (min sizeDest (unat k + length (rxBuffer twi))) pDest,
                twi\<lparr>rxBuffer :=
                  drop (min sizeDest (unat k + length (rxBuffer twi)) - unat k) (rxBuffer twi)\<rparr>)"
  using assms
proof (induction twi pDest sizeDest k rule: I2C_Read_loop.induct)
  case (1 twi pDest sizeDest bytesRead)
  show ?case
  proof (cases "unat bytesRead < sizeDest \<and> TwoWire_available twi")
    case False
    then have stop: "min sizeDest (unat bytesRead + length (rxBuffer twi)) = unat bytesRead"
      using "1.prems"(3) by (auto simp: TwoWire_available_def)
    have "I2C_Read_loop twi pDest sizeDest bytesRead = Inr (bytesRead, pDest, twi)"
      using False by (subst I2C_Read_loop.simps) auto
    then show ?thesis
      by (simp add: stop)
  next
    case True
    then obtain b rest where rx: "rxBuffer twi = b # rest"
      by (cases "rxBuffer twi") (auto simp: TwoWire_available_def)
    from True have lt: "unat bytesRead < sizeDest" by simp
    then have inb: "unat bytesRead < length pDest"
      using "1.prems"(1) by simp
    have suc: "unat (bytesRead + 1) = Suc (unat bytesRead)"
      using unat_Suc_u16 [OF lt "1.prems"(2)] .
    have rd: "TwoWire_read twi = (b, twi\<lparr>rxBuffer := rest\<rparr>)"
      by (simp add: TwoWire_read_def rx)
    let ?m = "min sizeDest (unat bytesRead + length (rxBuffer twi))"
    have m_eq: "min sizeDest (unat (bytesRead + 1) + length rest) = ?m"
      by (simp add: suc rx)
    have m_gt: "unat bytesRead < ?m"
      using lt by (simp add: rx)
    have unfold: "I2C_Read_loop twi pDest sizeDest bytesRead =
        I2C_Read_loop (twi\<lparr>rxBuffer := rest\<rparr>) (pDest[unat bytesRead := b]) sizeDest (bytesRead + 1)"
      using True inb by (subst I2C_Read_loop.simps) (simp add: rd)
    have t1: "take (Suc (unat bytesRead)) (pDest[unat bytesRead := b]) = take (unat bytesRead) pDest @ [b]"
      using inb by (simp add: take_Suc_conv_app_nth)
    have t2: "drop ?m (pDest[unat bytesRead := b]) = drop ?m pDest"
      using m_gt by simp
    have "I2C_Read_loop (twi\<lparr>rxBuffer := rest\<rparr>) (pDest[unat bytesRead := b]) sizeDest (bytesRead + 1) =
        Inr (of_nat ?m,
             take (Suc (unat bytesRead)) (pDest[unat bytesRead := b]) @
               take (?m - Suc (unat bytesRead)) rest @ drop ?m (pDest[unat bytesRead := b]),
             twi\<lparr>rxBuffer := drop (?m - Suc (unat bytesRead)) rest\<rparr>)"
      using "1.IH" [OF True inb] "1.prems" lt m_eq
      by (simp add: rd suc del: drop_update_cancel)
    then have ih: "I2C_Read_loop (twi\<lparr>rxBuffer := rest\<rparr>) (pDest[unat bytesRead := b]) sizeDest (bytesRead + 1) =
        Inr (of_nat ?m,
             (take (unat bytesRead) pDest @ [b]) @
               take (?m - Suc (unat bytesRead)) rest @ drop ?m pDest,
             twi\<lparr>rxBuffer := drop (?m - Suc (unat bytesRead)) rest\<rparr>)"
      unfolding t1 t2 .
    obtain d where d: "?m - unat bytesRead = Suc d"
      using m_gt by (metis Suc_diff_Suc)
    then have d': "?m - Suc (unat bytesRead) = d" by simp
    show ?thesis
      unfolding unfold ih d d' by (simp add: rx)
  qed
qed

subsection \<open>Posting and copying\<close>

text \<open>
  C1, as amended: \<open>PostResponse\<close> does not compare the declared length with the
  capacity of \<open>ResponseBuffer\<close>; it copies exactly \<open>Length\<close> bytes. For a listener with
  its 32-byte buffers and a response that holds the bytes it declares: when the declared
  length is at most 32, \<open>PostResponse\<close> replaces the first \<open>Length\<close> bytes of
  \<open>ResponseBuffer\<close>, keeps the others and sets \<open>ResponsePending\<close>, and the buffer still
  has 32 bytes; when the declared length is over 32 the response is not rejected and the
  copy runs past the end of the buffer.
\<close>

theorem copy_of_declared_length:
  assumes "wf_listener this"
    and "unat len \<le> length (len # rest)"
  shows "PostResponse (Some (len # rest)) this =
           (if unat len \<le> sizeof_ResponseBuffer
            then Inr (this\<lparr>ResponseBuffer :=
                             take (unat len) (len # rest) @ drop (unat len) (ResponseBuffer this),
                           ResponsePending := True\<rparr>)
            else Inl BufferOverrun) \<and>
         (unat len \<le> sizeof_ResponseBuffer \<longrightarrow>
            length (take (unat len) (len # rest) @ drop (unat len) (ResponseBuffer this)) =
              sizeof_ResponseBuffer)"
  using assms
  by (auto simp: PostResponse_cases wf_listener_def)

theorem copy_of_declared_length_witness:
  "wf_listener listener0 \<and>
   unat (4 :: byte) \<le> length [4 :: byte, 0, 0, 9] \<and>
   PostResponse (Some [4, 0, 0, 9]) listener0 =
     Inr (listener0\<lparr>ResponseBuffer := [4, 0, 0, 9] @ replicate 28 0, ResponsePending := True\<rparr>)"
  using copy_of_declared_length [of listener0 4 "[0, 0, 9]"]
  by (simp add: wf_listener_def sizeof_CommandBuffer_def sizeof_ResponseBuffer_def)

theorem oversized_frame_counterexample:
  "PostResponse (Some (33 # replicate 32 0)) listener0 = Inl BufferOverrun"
  by (simp add: PostResponse_def memcpy_def)

subsection \<open>Retrieving the response\<close>

text \<open>
  C2: when \<open>ResponsePending\<close> is set, \<open>GetResponse\<close> returns the pointer to
  \<open>ResponseBuffer\<close>, whose content it leaves as it is, and clears \<open>ResponsePending\<close>;
  when it is not set, \<open>GetResponse\<close> returns the static \<open>NOT_READY\<close> response, the
  bytes \<open>3, 0x02, 0\<close>, and changes nothing. Right after a \<open>PostResponse\<close> that
  succeeds, \<open>GetResponse\<close> returns the pointer to \<open>ResponseBuffer\<close>, which starts with
  the \<open>Length\<close> bytes of the posted response. After a \<open>GetResponse\<close>, any sequence of
  calls that runs without reaching \<open>PostResponse\<close> runs to its end, and the next
  \<open>GetResponse\<close> returns the \<open>NOT_READY\<close> response.
\<close>

theorem GetResponse_pending_or_not_ready:
  "(ResponsePending this \<longrightarrow>
      GetResponse this = (ResponseBuffer_ptr, this\<lparr>ResponsePending := False\<rparr>) \<and>
      response_at (snd (GetResponse this)) (fst (GetResponse this)) = ResponseBuffer this) \<and>
   (\<not> ResponsePending this \<longrightarrow>
      GetResponse this = (responseNotReady_ptr, this) \<and>
      response_at (snd (GetResponse this)) (fst (GetResponse this)) =
        [3, CMD_RESPONSE_NOTREADY, 0]) \<and>
   (PostResponse (Some (len # rest)) this = Inr posted \<longrightarrow>
      GetResponse posted = (ResponseBuffer_ptr, posted\<lparr>ResponsePending := False\<rparr>) \<and>
      take (unat len) (response_at (snd (GetResponse posted)) (fst (GetResponse posted))) =
        take (unat len) (len # rest)) \<and>
   (no_PostResponse EventSource_Poll calls (snd (GetResponse this)) \<longrightarrow>
      (case call_seq EventSource_Poll calls (snd (GetResponse this)) of
         Inl e \<Rightarrow> False
       | Inr this' \<Rightarrow>
           GetResponse this' = (responseNotReady_ptr, this') \<and>
           response_at this' responseNotReady_ptr = [3, 0x02, 0]))"
proof (intro conjI impI)
  assume q: "no_PostResponse EventSource_Poll calls (snd (GetResponse this))"
  from no_PostResponse_keeps_idle [OF q GetResponse_clears]
  obtain this' where "call_seq EventSource_Poll calls (snd (GetResponse this)) = Inr this'"
    and "\<not> ResponsePending this'" by blast
  then show "case call_seq EventSource_Poll calls (snd (GetResponse this)) of
         Inl e \<Rightarrow> False
       | Inr this' \<Rightarrow>
           GetResponse this' = (responseNotReady_ptr, this') \<and>
           response_at this' responseNotReady_ptr = [3, 0x02, 0]"
    by (simp add: GetResponse_def responseNotReady_bytes CMD_RESPONSE_NOTREADY_def)
next
  assume p: "PostResponse (Some (len # rest)) this = Inr posted"
  show "GetResponse posted = (ResponseBuffer_ptr, posted\<lparr>ResponsePending := False\<rparr>)"
    using PostResponse_then_GetResponse [OF p] by simp
  show "take (unat len) (response_at (snd (GetResponse posted)) (fst (GetResponse posted))) =
        take (unat len) (len # rest)"
    using PostResponse_then_GetResponse [OF p] by (simp add: response_at_def)
qed (simp_all add: GetResponse_def responseNotReady_bytes, simp add: response_at_def)

theorem GetResponse_pending_or_not_ready_witness:
  "PostResponse (Some [4, 0, 0, 7]) listener0 =
     Inr (listener0\<lparr>ResponseBuffer := [4, 0, 0, 7] @ replicate 28 0, ResponsePending := True\<rparr>) \<and>
   ResponsePending
     (listener0\<lparr>ResponseBuffer := [4, 0, 0, 7] @ replicate 28 0, ResponsePending := True\<rparr>) \<and>
   GetResponse
     (listener0\<lparr>ResponseBuffer := [4, 0, 0, 7] @ replicate 28 0, ResponsePending := True\<rparr>) =
     (ResponseBuffer_ptr, listener0\<lparr>ResponseBuffer := [4, 0, 0, 7] @ replicate 28 0\<rparr>) \<and>
   \<not> ResponsePending listener0 \<and>
   GetResponse listener0 = (responseNotReady_ptr, listener0) \<and>
   no_PostResponse id
     [Call_Poll, Call_SendResponse \<lparr>rxBuffer = [], txBuffer = []\<rparr>, Call_OnEvent 0,
      Call_OnCommand [2, 0x06], Call_Begin]
     (listener0\<lparr>ResponseBuffer := [4, 0, 0, 7] @ replicate 28 0\<rparr>) \<and>
   call_seq id
     [Call_Poll, Call_SendResponse \<lparr>rxBuffer = [], txBuffer = []\<rparr>, Call_OnEvent 0,
      Call_OnCommand [2, 0x06], Call_Begin]
     (listener0\<lparr>ResponseBuffer := [4, 0, 0, 7] @ replicate 28 0\<rparr>) =
     Inr (listener0\<lparr>ResponseBuffer := [4, 0, 0, 7] @ replicate 28 0\<rparr>) \<and>
   GetResponse (listener0\<lparr>ResponseBuffer := [4, 0, 0, 7] @ replicate 28 0\<rparr>) =
     (responseNotReady_ptr, listener0\<lparr>ResponseBuffer := [4, 0, 0, 7] @ replicate 28 0\<rparr>)"
  using GetResponse_pending_or_not_ready
    [of "listener0\<lparr>ResponseBuffer := [4, 0, 0, 7] @ replicate 28 0, ResponsePending := True\<rparr>"
      4 "[0, 0, 7]"
      "listener0\<lparr>ResponseBuffer := [4, 0, 0, 7] @ replicate 28 0, ResponsePending := True\<rparr>"
      id
      "[Call_Poll, Call_SendResponse \<lparr>rxBuffer = [], txBuffer = []\<rparr>, Call_OnEvent 0,
        Call_OnCommand [2, 0x06], Call_Begin]"]
    GetResponse_pending_or_not_ready [of listener0 4 "[0, 0, 7]" listener0 id "[]"]
  by (simp add: PostResponse_def memcpy_def GetResponse_def Poll_def SendResponse_def
      OnEvent_def OnCommand_def OnCommand_posts_def DefaultCommandHandler_def
      CommandMessage_of_bytes_def sizeof_CommandMessage_def CMD_QUERY_ID_def Begin_def
      OnBegin_def)

subsection \<open>Dispatching\<close>

text \<open>
  C4: for a listener whose device ID is 7, with a pending command in \<open>CommandBuffer\<close>
  whose command code is \<open>CMD_QUERY_ID\<close>, one \<open>Poll\<close> with the base class's handler
  succeeds, and the \<open>GetResponse\<close> after it returns the pointer to \<open>ResponseBuffer\<close>,
  where a \<open>CommandResponseQueryID\<close> stands with \<open>Length\<close> 4, response code \<open>OK\<close>,
  response ID 0 and ID 7.
\<close>

theorem Poll_query_id_7:
  assumes "myDeviceID this = 7"
    and "CommandPending this"
    and "CommandMessage_of_bytes (CommandBuffer this) = Some cmd"
    and "CommandCode cmd = CMD_QUERY_ID"
    and "length (ResponseBuffer this) = sizeof_ResponseBuffer"
  shows "(case Poll OnCommand EventSource_Poll this of
            Inl e \<Rightarrow> False
          | Inr this' \<Rightarrow>
              (case GetResponse this' of
                 (p, this'') \<Rightarrow>
                   p = ResponseBuffer_ptr \<and>
                   CommandResponseQueryID_of_bytes (response_at this'' p) =
                     Some \<lparr>CommandResponse.Length = 4, ResponseCode = CMD_RESPONSE_OK,
                           CommandResponse.ResponseID = 0, ID = 7\<rparr> \<and>
                   \<not> CommandPending this'' \<and> \<not> ResponsePending this''))"
  using assms
  by (simp add: Poll_def OnCommand_def DefaultCommandHandler_def PostResponse_QueryID
      sizeof_ResponseBuffer_def GetResponse_def response_at_def
      CommandResponseQueryID_of_bytes_def sizeof_defs)

theorem Poll_query_id_7_witness:
  "myDeviceID
     ((CommandListener_ctor 7 listener0)
        \<lparr>CommandBuffer := bytes_of_CommandMessage (CommandMessage_ctor CMD_QUERY_ID) @ replicate 30 0,
         CommandPending := True\<rparr>) = 7 \<and>
   CommandMessage_of_bytes
     (bytes_of_CommandMessage (CommandMessage_ctor CMD_QUERY_ID) @ replicate 30 0) =
     Some (CommandMessage_ctor CMD_QUERY_ID) \<and>
   CommandCode (CommandMessage_ctor CMD_QUERY_ID) = CMD_QUERY_ID \<and>
   Poll OnCommand id
     ((CommandListener_ctor 7 listener0)
        \<lparr>CommandBuffer := bytes_of_CommandMessage (CommandMessage_ctor CMD_QUERY_ID) @ replicate 30 0,
         CommandPending := True\<rparr>) =
     Inr (listener0\<lparr>CommandBuffer := [2, 0x01] @ replicate 30 0,
                    ResponseBuffer := [4, 0, 0, 7] @ replicate 28 0,
                    ResponsePending := True, myDeviceID := 7\<rparr>) \<and>
   GetResponse
     (listener0\<lparr>CommandBuffer := [2, 0x01] @ replicate 30 0,
                ResponseBuffer := [4, 0, 0, 7] @ replicate 28 0,
                ResponsePending := True, myDeviceID := 7\<rparr>) =
     (ResponseBuffer_ptr,
      listener0\<lparr>CommandBuffer := [2, 0x01] @ replicate 30 0,
                ResponseBuffer := [4, 0, 0, 7] @ replicate 28 0, myDeviceID := 7\<rparr>) \<and>
   CommandResponseQueryID_of_bytes ([4, 0, 0, 7] @ replicate 28 0) =
     Some \<lparr>CommandResponse.Length = 4, ResponseCode = CMD_RESPONSE_OK,
           CommandResponse.ResponseID = 0, ID = 7\<rparr>"
  using Poll_query_id_7
    [of "(CommandListener_ctor 7 listener0)
        \<lparr>CommandBuffer := bytes_of_CommandMessage (CommandMessage_ctor CMD_QUERY_ID) @ replicate 30 0,
         CommandPending := True\<rparr>" "CommandMessage_ctor CMD_QUERY_ID" id]
  by (simp add: CommandListener_ctor_def
      CommandMessage_ctor_def bytes_of_CommandMessage_def CommandMessage_of_bytes_def
      sizeof_CommandMessage_def sizeof_ResponseBuffer_def Poll_def OnCommand_def
      DefaultCommandHandler_def PostResponse_QueryID GetResponse_def
      CommandResponseQueryID_of_bytes_def sizeof_CommandResponseQueryID_def
      sizeof_CommandResponse_def CMD_QUERY_ID_def CMD_RESPONSE_OK_def)

text \<open>
  C6: with a command pending, \<open>Poll\<close> is the handler applied once to the pointer to
  \<open>CommandBuffer\<close> and the listener, followed by clearing \<open>CommandPending\<close> (and by
  \<open>EventSource::Poll\<close> on the base part), so \<open>CommandPending\<close> is false after a \<open>Poll\<close>
  that returns; with no command pending, \<open>Poll\<close> does not apply the handler: only the
  base part is polled, and \<open>CommandPending\<close> and \<open>CommandBuffer\<close> are as before.
\<close>

theorem Poll_dispatches_once:
  "(CommandPending this \<longrightarrow>
      Poll onCommand EventSource_Poll this =
        (case onCommand (CommandBuffer this) this of
           Inl e \<Rightarrow> Inl e
         | Inr this' \<Rightarrow>
             Inr (this'\<lparr>CommandPending := False,
                        eventSource := EventSource_Poll (eventSource this')\<rparr>)) \<and>
      (\<forall>this''. Poll onCommand EventSource_Poll this = Inr this'' \<longrightarrow> \<not> CommandPending this'')) \<and>
   (\<not> CommandPending this \<longrightarrow>
      Poll onCommand EventSource_Poll this =
        Inr (this\<lparr>eventSource := EventSource_Poll (eventSource this)\<rparr>) \<and>
      (\<forall>this''. Poll onCommand EventSource_Poll this = Inr this'' \<longrightarrow>
         CommandPending this'' = CommandPending this \<and>
         CommandBuffer this'' = CommandBuffer this))"
  by (auto simp: Poll_def split: sum.splits)

theorem Poll_dispatches_once_witness:
  "CommandPending (recorder0\<lparr>CommandPending := True\<rparr>) \<and>
   Poll Recording_OnCommand id (recorder0\<lparr>CommandPending := True\<rparr>) =
     Inr (recorder0\<lparr>Dispatched := [CommandBuffer recorder0]\<rparr>) \<and>
   \<not> CommandPending recorder0 \<and>
   Poll Recording_OnCommand id recorder0 = Inr recorder0"
proof -
  let ?idle = recorder0
  have p: "CommandPending (?idle\<lparr>CommandPending := True\<rparr>)" and np: "\<not> CommandPending ?idle"
    by simp_all
  note pending =
    Poll_dispatches_once [of "?idle\<lparr>CommandPending := True\<rparr>" Recording_OnCommand id,
      THEN conjunct1, THEN mp, OF p, THEN conjunct1]
  note idle =
    Poll_dispatches_once [of ?idle Recording_OnCommand id,
      THEN conjunct2, THEN mp, OF np, THEN conjunct1]
  show ?thesis
    using pending idle
    by (simp add: Recording_OnCommand_def OnCommand_def DefaultCommandHandler_def
        CommandMessage_of_bytes_def sizeof_CommandMessage_def CMD_QUERY_ID_def)
qed

text \<open>
  C8: for every command whose command code is not \<open>CMD_QUERY_ID\<close>,
  \<open>DefaultCommandHandler\<close> returns the listener as it was: \<open>ResponsePending\<close>,
  \<open>ResponseBuffer\<close> and every other member are unchanged.
\<close>

theorem DefaultCommandHandler_other_codes:
  assumes "CommandMessage_of_bytes pCommand = Some cmd"
    and "CommandCode cmd \<noteq> CMD_QUERY_ID"
  shows "DefaultCommandHandler pCommand this = Inr this"
  using assms by (simp add: DefaultCommandHandler_def)

theorem DefaultCommandHandler_other_codes_witness:
  "CommandMessage_of_bytes [2, 0x06] = Some \<lparr>CommandMessage.Length = 2, CommandCode = 0x06\<rparr> \<and>
   CommandCode \<lparr>CommandMessage.Length = 2, CommandCode = 0x06 :: byte\<rparr> \<noteq> CMD_QUERY_ID \<and>
   DefaultCommandHandler [2, 0x06] listener0 = Inr listener0"
proof -
  have a: "CommandMessage_of_bytes [2, 0x06] = Some \<lparr>CommandMessage.Length = 2, CommandCode = 0x06\<rparr>"
    by (simp add: CommandMessage_of_bytes_def sizeof_defs)
  have b: "CommandCode \<lparr>CommandMessage.Length = 2, CommandCode = 0x06 :: byte\<rparr> \<noteq> CMD_QUERY_ID"
    by (simp add: CMD_QUERY_ID_def)
  show ?thesis
    using a b DefaultCommandHandler_other_codes [OF a b, of listener0] by simp
qed

subsection \<open>A command arriving while one is pending\<close>




subsection \<open>Sending the response\<close>

text \<open>
  C10: the base class's \<open>SendResponse\<close> writes the three bytes \<open>3, 0x05, 0\<close> to the
  bus, which are a \<open>CommandResponse\<close> with \<open>Length\<close> 3, response code \<open>UNKNOWN\<close> and
  response ID 0, whatever \<open>ResponsePending\<close> and \<open>ResponseBuffer\<close> hold, and returns
  the listener unchanged.
\<close>

theorem SendResponse_writes_unknown:
  "SendResponse twi this =
     (twi\<lparr>txBuffer := txBuffer twi @ [3, CMD_RESPONSE_UNKNOWN, 0]\<rparr>, this) \<and>
   CommandResponse_of_bytes [3, CMD_RESPONSE_UNKNOWN, 0] =
     Some \<lparr>CommandResponse.Length = 3, ResponseCode = 0x05, CommandResponse.ResponseID = 0\<rparr>"
  by (simp add: SendResponse_def TwoWire_write_def bytes_of_CommandResponse_ctor
      CommandResponse_of_bytes_def sizeof_defs CMD_RESPONSE_UNKNOWN_def)

subsection \<open>The single response slot\<close>




section \<open>Properties of the I2C wrappers\<close>

text \<open>
  C9, as amended: for a value of fewer than \<open>2^16\<close> bytes, \<open>I2C_Write\<close> hands exactly
  the \<open>sizeof(value)\<close> bytes of the value to the bus and returns \<open>sizeof(value)\<close>; the
  typed \<open>I2C_Read\<close> takes \<open>min (sizeof(T)) (the number of bytes waiting)\<close> bytes from the
  bus, stores them at the start of the value, keeps the rest of the value, and returns
  this count. It reads \<open>sizeof(T)\<close> bytes only when that many are waiting.
\<close>

theorem typed_read_write_sizes:
  assumes "length val < 65536"
  shows "I2C_Write twi val = (twi\<lparr>txBuffer := txBuffer twi @ val\<rparr>, of_nat (length val)) \<and>
         unat (snd (I2C_Write twi val)) = length val \<and>
         I2C_Read_T twi val =
           Inr (of_nat (min (length val) (length (rxBuffer twi))),
                take (min (length val) (length (rxBuffer twi))) (rxBuffer twi) @
                  drop (min (length val) (length (rxBuffer twi))) val,
                twi\<lparr>rxBuffer := drop (min (length val) (length (rxBuffer twi))) (rxBuffer twi)\<rparr>) \<and>
         unat (of_nat (min (length val) (length (rxBuffer twi))) :: 16 word) =
           min (length val) (length (rxBuffer twi))"
proof -
  have w: "unat (of_nat (length val) :: 16 word) = length val"
    using assms by (simp add: unat_of_nat)
  have m: "unat (of_nat (min (length val) (length (rxBuffer twi))) :: 16 word) =
           min (length val) (length (rxBuffer twi))"
    using assms by (simp add: unat_of_nat)
  have r: "I2C_Read_T twi val =
           Inr (of_nat (min (length val) (length (rxBuffer twi))),
                take (min (length val) (length (rxBuffer twi))) (rxBuffer twi) @
                  drop (min (length val) (length (rxBuffer twi))) val,
                twi\<lparr>rxBuffer := drop (min (length val) (length (rxBuffer twi))) (rxBuffer twi)\<rparr>)"
    using I2C_Read_loop_eq [of "length val" val 0 twi] assms
    by (simp add: I2C_Read_T_def I2C_Read_def)
  show ?thesis
    using w m r by (simp add: I2C_Write_def TwoWire_write_def)
qed

theorem typed_read_write_sizes_witness:
  "length [0 :: byte, 0, 0, 0] < 65536 \<and>
   I2C_Write \<lparr>rxBuffer = [1, 2, 3, 4, 5], txBuffer = []\<rparr> [7, 8, 9, 10] =
     (\<lparr>rxBuffer = [1, 2, 3, 4, 5], txBuffer = [7, 8, 9, 10]\<rparr>, 4) \<and>
   I2C_Read_T \<lparr>rxBuffer = [1, 2, 3, 4, 5], txBuffer = []\<rparr> [0, 0, 0, 0] =
     Inr (4, [1, 2, 3, 4], \<lparr>rxBuffer = [5], txBuffer = []\<rparr>)"
  using typed_read_write_sizes [of "[0, 0, 0, 0]" "\<lparr>rxBuffer = [1, 2, 3, 4, 5], txBuffer = []\<rparr>"]
    typed_read_write_sizes [of "[7, 8, 9, 10]" "\<lparr>rxBuffer = [1, 2, 3, 4, 5], txBuffer = []\<rparr>"]
  by simp

theorem short_read_counterexample:
  "I2C_Read_T \<lparr>rxBuffer = [0xAA], txBuffer = []\<rparr> [0, 0, 0, 0] =
     Inr (1, [0xAA, 0, 0, 0], \<lparr>rxBuffer = [], txBuffer = []\<rparr>)"
  by (simp add: I2C_Read_T_def I2C_Read_def I2C_Read_loop.simps TwoWire_available_def
      TwoWire_read_def)

end
